theory Spec2Isabelle
  imports Main
begin

section \<open>Data model of pkg/k8s/authz.go\<close>

text \<open>
  A Go \<open>error\<close> value. \<open>errors.New\<close> and \<open>fmt.Errorf\<close> (without \<open>%w\<close>) both make
  an \<open>*errors.errorString\<close> carrying the message; every other error value comes from the
  client (network, API server, serialization) and is only passed along by this package.
  A function returning \<open>error\<close> returns \<open>error option\<close>: \<open>None\<close> is \<open>nil\<close>.
\<close>

datatype error = errorString string | otherError string

text \<open>The structs of \<open>k8s.io/api/authorization/v1\<close> that the package fills in and reads.
  A field the code does not set holds Go's zero value (the empty string, \<open>false\<close>, \<open>nil\<close>).\<close>

record ResourceAttributes =
  Namespace :: string
  Verb :: string
  Group :: string
  Version :: string
  Resource :: string
  Subresource :: string
  Name :: string

record SubjectAccessReviewStatus =
  Allowed :: bool
  Denied :: bool
  Reason :: string
  EvaluationError :: string

record SelfSubjectAccessReviewSpec =
  ssar_ResourceAttributes :: "ResourceAttributes option"

record SelfSubjectAccessReview =
  ssar_Spec :: SelfSubjectAccessReviewSpec
  ssar_Status :: SubjectAccessReviewStatus

record SubjectAccessReviewSpec =
  sar_ResourceAttributes :: "ResourceAttributes option"
  User :: string
  Groups :: "string list"

record SubjectAccessReview =
  sar_Spec :: SubjectAccessReviewSpec
  sar_Status :: SubjectAccessReviewStatus

definition zero_Status :: SubjectAccessReviewStatus where
  "zero_Status = \<lparr>Allowed = False, Denied = False, Reason = [], EvaluationError = []\<rparr>"

text \<open>\<open>schema.GroupKind\<close> of \<open>k8s.io/apimachinery/pkg/runtime/schema\<close>. The verb \<open>%s\<close>
  of \<open>fmt\<close> prints a value that has a \<open>String\<close> method through that method, which is
  \<^verbatim>\<open>
  func (gk GroupKind) String() string {
      if len(gk.Group) == 0 {
          return gk.Kind
      }
      return gk.Kind + "." + gk.Group
  }
  \<close>\<close>

record GroupKind =
  gk_Group :: string
  gk_Kind :: string

definition GroupKind_String :: "GroupKind \<Rightarrow> string" where
  "GroupKind_String gk =
     (if length (gk_Group gk) = 0 then gk_Kind gk else gk_Kind gk @ ''.'' @ gk_Group gk)"

text \<open>Discovery: \<open>metav1.APIResourceList\<close> and its entries.\<close>

record APIResource =
  api_Name :: string
  api_Kind :: string

record APIResourceList =
  GroupVersion :: string
  APIResources :: "APIResource list"

text \<open>\<open>discovery.SchemeGroupVersion\<close> of \<open>k8s.io/api/discovery/v1beta1\<close> and the
  \<open>String\<close> method of \<open>schema.GroupVersion\<close> (the group, a slash, the version; the version
  alone when the group is empty).\<close>

record GroupVersion_t =
  gv_Group :: string
  gv_Version :: string

definition GroupVersion_String :: "GroupVersion_t \<Rightarrow> string" where
  "GroupVersion_String gv =
     (if length (gv_Group gv) > 0 then gv_Group gv @ ''/'' @ gv_Version gv else gv_Version gv)"

definition SchemeGroupVersion :: GroupVersion_t where
  "SchemeGroupVersion = \<lparr>gv_Group = ''discovery.k8s.io'', gv_Version = ''v1beta1''\<rparr>"

text \<open>The listing of EndpointSlices: only the number of items is read.\<close>

record EndpointSlice =
  es_Namespace :: string
  es_Name :: string

record EndpointSliceList =
  Items :: "EndpointSlice list"

record ListOptions =
  LabelSelector :: string
  FieldSelector :: string

definition zero_ListOptions :: ListOptions where
  "zero_ListOptions = \<lparr>LabelSelector = [], FieldSelector = []\<rparr>"

text \<open>The constants of package \<open>k8s\<close> that authz.go uses and another file of the package
  declares. They are parameters of the checks: every theorem holds for all their values.\<close>

record k8s_constants =
  ServiceProfileAPIVersion :: string
  ServiceProfileKind :: string
  LinkAPIGroup :: string
  LinkAPIVersion :: string
  LinkAPIGroupVersion :: string
  LinkKind :: string

section \<open>The client and the calls made on it\<close>

text \<open>
  Every request the package sends through \<open>kubernetes.Interface\<close> is one \<open>call\<close>. A check
  takes the list of calls made so far and returns it extended, in order, by the calls it made.
  The client answers a request as a function of the request and of the calls made before
  it, so its answers may change from one call to the next.
\<close>

datatype call =
    Discover string
  | CreateSSAR SelfSubjectAccessReview
  | CreateSAR SubjectAccessReview
  | ListEndpointSlices string ListOptions

record Interface =
  ServerResourcesForGroupVersion :: "call list \<Rightarrow> string \<Rightarrow> error + APIResourceList"
  SelfSubjectAccessReviews_Create ::
    "call list \<Rightarrow> SelfSubjectAccessReview \<Rightarrow> error + SelfSubjectAccessReview"
  SubjectAccessReviews_Create ::
    "call list \<Rightarrow> SubjectAccessReview \<Rightarrow> error + SubjectAccessReview"
  EndpointSlices_List :: "call list \<Rightarrow> string \<Rightarrow> ListOptions \<Rightarrow> error + EndpointSliceList"

section \<open>The functions of authz.go\<close>

definition evaluateAccessReviewStatus ::
  "string \<Rightarrow> string \<Rightarrow> SubjectAccessReviewStatus \<Rightarrow> error option" where
  "evaluateAccessReviewStatus grp resource status =
     (if Allowed status then None
      else
        (let gk = \<lparr>gk_Group = grp, gk_Kind = resource\<rparr> in
         if length (Reason status) > 0
         then Some (errorString
                (''not authorized to access '' @ GroupKind_String gk @ '': '' @ Reason status))
         else Some (errorString (''not authorized to access '' @ GroupKind_String gk))))"

definition ResourceAuthz ::
  "Interface \<Rightarrow> string \<Rightarrow> string \<Rightarrow> string \<Rightarrow> string \<Rightarrow> string \<Rightarrow> string \<Rightarrow>
     call list \<Rightarrow> error option \<times> call list" where
  "ResourceAuthz k8sClient namespace verb grp version resource name t =
     (let ssar = \<lparr>ssar_Spec = \<lparr>ssar_ResourceAttributes = Some
                    \<lparr>Namespace = namespace, Verb = verb, Group = grp, Version = version,
                     Resource = resource, Subresource = [], Name = name\<rparr>\<rparr>,
                  ssar_Status = zero_Status\<rparr>
      in case SelfSubjectAccessReviews_Create k8sClient t ssar of
           Inl err \<Rightarrow> (Some err, t @ [CreateSSAR ssar])
         | Inr result \<Rightarrow>
             (evaluateAccessReviewStatus grp resource (ssar_Status result),
              t @ [CreateSSAR ssar]))"

definition ResourceAuthzForUser ::
  "Interface \<Rightarrow> string \<Rightarrow> string \<Rightarrow> string \<Rightarrow> string \<Rightarrow> string \<Rightarrow> string \<Rightarrow> string \<Rightarrow>
     string \<Rightarrow> string list \<Rightarrow> call list \<Rightarrow> error option \<times> call list" where
  "ResourceAuthzForUser client namespace verb grp version resource subresource name
       user userGroups t =
     (let sar = \<lparr>sar_Spec = \<lparr>sar_ResourceAttributes = Some
                    \<lparr>Namespace = namespace, Verb = verb, Group = grp, Version = version,
                     Resource = resource, Subresource = subresource, Name = name\<rparr>,
                    User = user, Groups = userGroups\<rparr>,
                 sar_Status = zero_Status\<rparr>
      in case SubjectAccessReviews_Create client t sar of
           Inl err \<Rightarrow> (Some err, t @ [CreateSAR sar])
         | Inr result \<Rightarrow>
             (evaluateAccessReviewStatus grp resource (sar_Status result),
              t @ [CreateSAR sar]))"

text \<open>
  The \<open>for ... range res.APIResources\<close> loop of each check returns from the check at the
  first entry of the expected kind. The loop is a recursion over the entries whose result
  is \<open>Some r\<close> when the body returned \<open>r\<close> and \<open>None\<close> when the loop ran to its end.
\<close>

fun ServiceProfilesAccess_range ::
  "Interface \<Rightarrow> k8s_constants \<Rightarrow> APIResource list \<Rightarrow> call list \<Rightarrow>
     error option option \<times> call list" where
  "ServiceProfilesAccess_range k8sClient c [] t = (None, t)"
| "ServiceProfilesAccess_range k8sClient c (apiRes # rest) t =
     (if api_Kind apiRes = ServiceProfileKind c
      then (case ResourceAuthz k8sClient [] ''list'' ''linkerd.io'' [] ''serviceprofiles'' [] t of
              (r, t') \<Rightarrow> (Some r, t'))
      else ServiceProfilesAccess_range k8sClient c rest t)"

definition ServiceProfilesAccess ::
  "Interface \<Rightarrow> k8s_constants \<Rightarrow> call list \<Rightarrow> error option \<times> call list" where
  "ServiceProfilesAccess k8sClient c t =
     (case ServerResourcesForGroupVersion k8sClient t (ServiceProfileAPIVersion c) of
        Inl err \<Rightarrow> (Some err, t @ [Discover (ServiceProfileAPIVersion c)])
      | Inr res \<Rightarrow>
          (let t1 = t @ [Discover (ServiceProfileAPIVersion c)];
               notFound = (Some (errorString ''ServiceProfile CRD not found''), t1)
           in if GroupVersion res = ServiceProfileAPIVersion c
              then (case ServiceProfilesAccess_range k8sClient c (APIResources res) t1 of
                      (Some r, t2) \<Rightarrow> (r, t2)
                    | (None, t2) \<Rightarrow> notFound)
              else notFound))"

definition checkEndpointSlicesExist ::
  "Interface \<Rightarrow> call list \<Rightarrow> error option \<times> call list" where
  "checkEndpointSlicesExist k8sClient t =
     (case EndpointSlices_List k8sClient t [] zero_ListOptions of
        Inl err \<Rightarrow> (Some err, t @ [ListEndpointSlices [] zero_ListOptions])
      | Inr sliceList \<Rightarrow>
          (if length (Items sliceList) > 0
           then (None, t @ [ListEndpointSlices [] zero_ListOptions])
           else (Some (errorString ''no EndpointSlice resources exist in the cluster''),
                 t @ [ListEndpointSlices [] zero_ListOptions])))"

fun EndpointSliceAccess_range ::
  "Interface \<Rightarrow> APIResource list \<Rightarrow> call list \<Rightarrow> error option option \<times> call list" where
  "EndpointSliceAccess_range k8sClient [] t = (None, t)"
| "EndpointSliceAccess_range k8sClient (apiRes # rest) t =
     (if api_Kind apiRes = ''EndpointSlice''
      then (case checkEndpointSlicesExist k8sClient t of (r, t') \<Rightarrow> (Some r, t'))
      else EndpointSliceAccess_range k8sClient rest t)"

definition EndpointSliceAccess ::
  "Interface \<Rightarrow> call list \<Rightarrow> error option \<times> call list" where
  "EndpointSliceAccess k8sClient t =
     (let gv = GroupVersion_String SchemeGroupVersion
      in case ServerResourcesForGroupVersion k8sClient t gv of
           Inl err \<Rightarrow> (Some err, t @ [Discover gv])
         | Inr res \<Rightarrow>
             (let t1 = t @ [Discover gv];
                  notFound = (Some (errorString ''EndpointSlice resource not found''), t1)
              in if GroupVersion res = gv
                 then (case EndpointSliceAccess_range k8sClient (APIResources res) t1 of
                         (Some r, t2) \<Rightarrow> (r, t2)
                       | (None, t2) \<Rightarrow> notFound)
                 else notFound))"

fun LinkAccess_range ::
  "Interface \<Rightarrow> k8s_constants \<Rightarrow> APIResource list \<Rightarrow> call list \<Rightarrow>
     error option option \<times> call list" where
  "LinkAccess_range k8sClient c [] t = (None, t)"
| "LinkAccess_range k8sClient c (apiRes # rest) t =
     (if api_Kind apiRes = LinkKind c
      then (case ResourceAuthz k8sClient [] ''list'' (LinkAPIGroup c) (LinkAPIVersion c)
                   ''links'' [] t of
              (r, t') \<Rightarrow> (Some r, t'))
      else LinkAccess_range k8sClient c rest t)"

definition LinkAccess ::
  "Interface \<Rightarrow> k8s_constants \<Rightarrow> call list \<Rightarrow> error option \<times> call list" where
  "LinkAccess k8sClient c t =
     (case ServerResourcesForGroupVersion k8sClient t (LinkAPIGroupVersion c) of
        Inl err \<Rightarrow> (Some err, t @ [Discover (LinkAPIGroupVersion c)])
      | Inr res \<Rightarrow>
          (let t1 = t @ [Discover (LinkAPIGroupVersion c)];
               notFound = (Some (errorString ''Link CRD not found''), t1)
           in if GroupVersion res = LinkAPIGroupVersion c
              then (case LinkAccess_range k8sClient c (APIResources res) t1 of
                      (Some r, t2) \<Rightarrow> (r, t2)
                    | (None, t2) \<Rightarrow> notFound)
              else notFound))"

definition ClusterAccess :: "Interface \<Rightarrow> call list \<Rightarrow> error option \<times> call list" where
  "ClusterAccess k8sClient t = ResourceAuthz k8sClient [] ''list'' [] [] ''pods'' [] t"

section \<open>Notions the properties are stated with\<close>

text \<open>
  The answer of discovery confirms a capability when it is a list (not an error) whose own
  group-version string is the probed one and which has an entry of the expected kind.
\<close>

definition capabilityPresent :: "error + APIResourceList \<Rightarrow> string \<Rightarrow> string \<Rightarrow> bool" where
  "capabilityPresent answer gv kind =
     (case answer of
        Inl err \<Rightarrow> False
      | Inr res \<Rightarrow> GroupVersion res = gv \<and> kind \<in> set (map api_Kind (APIResources res)))"

text \<open>The calls a run made: what it appended to the calls made before it.\<close>

definition callsMade :: "call list \<Rightarrow> error option \<times> call list \<Rightarrow> call list" where
  "callsMade t run = drop (length t) (snd run)"

text \<open>A call that submits an access review, of either kind.\<close>

fun isAccessReview :: "call \<Rightarrow> bool" where
  "isAccessReview (CreateSSAR q) = True"
| "isAccessReview (CreateSAR q) = True"
| "isAccessReview (Discover gv) = False"
| "isAccessReview (ListEndpointSlices ns opts) = False"

text \<open>The subresource a call asks about: the \<open>Subresource\<close> field of the resource attributes
  of an access review (\<open>None\<close> for a call that carries no resource attributes).\<close>

fun subresourceOf :: "call \<Rightarrow> string option" where
  "subresourceOf (CreateSSAR q) = map_option Subresource (ssar_ResourceAttributes (ssar_Spec q))"
| "subresourceOf (CreateSAR q) = map_option Subresource (sar_ResourceAttributes (sar_Spec q))"
| "subresourceOf (Discover gv) = None"
| "subresourceOf (ListEndpointSlices ns opts) = None"

text \<open>The self-subject review that \<open>ResourceAuthz\<close> builds from its arguments.\<close>

definition selfQuery ::
  "string \<Rightarrow> string \<Rightarrow> string \<Rightarrow> string \<Rightarrow> string \<Rightarrow> string \<Rightarrow> SelfSubjectAccessReview" where
  "selfQuery namespace verb grp version resource name =
     \<lparr>ssar_Spec = \<lparr>ssar_ResourceAttributes = Some
        \<lparr>Namespace = namespace, Verb = verb, Group = grp, Version = version,
         Resource = resource, Subresource = [], Name = name\<rparr>\<rparr>,
      ssar_Status = zero_Status\<rparr>"

text \<open>The subject review that \<open>ResourceAuthzForUser\<close> builds from its arguments.\<close>

definition subjectQuery ::
  "string \<Rightarrow> string \<Rightarrow> string \<Rightarrow> string \<Rightarrow> string \<Rightarrow> string \<Rightarrow> string \<Rightarrow> string \<Rightarrow>
     string list \<Rightarrow> SubjectAccessReview" where
  "subjectQuery namespace verb grp version resource subresource name user userGroups =
     \<lparr>sar_Spec = \<lparr>sar_ResourceAttributes = Some
        \<lparr>Namespace = namespace, Verb = verb, Group = grp, Version = version,
         Resource = resource, Subresource = subresource, Name = name\<rparr>,
        User = user, Groups = userGroups\<rparr>,
      sar_Status = zero_Status\<rparr>"

section \<open>Test doubles\<close>

text \<open>
  A client in the manner of client-go's fake clientset: discovery answers from a table, an
  access review comes back with a fixed status (or fails with a fixed error), and the
  listing of EndpointSlices has a fixed answer.
\<close>

definition fakeClient ::
  "(string \<Rightarrow> error + APIResourceList) \<Rightarrow> error + SubjectAccessReviewStatus \<Rightarrow>
     error + EndpointSliceList \<Rightarrow> Interface" where
  "fakeClient resources verdict slices =
     \<lparr>ServerResourcesForGroupVersion = (\<lambda>t gv. resources gv),
      SelfSubjectAccessReviews_Create =
        (\<lambda>t ssar. case verdict of Inl err \<Rightarrow> Inl err
                                 | Inr st \<Rightarrow> Inr (ssar\<lparr>ssar_Status := st\<rparr>)),
      SubjectAccessReviews_Create =
        (\<lambda>t sar. case verdict of Inl err \<Rightarrow> Inl err
                                | Inr st \<Rightarrow> Inr (sar\<lparr>sar_Status := st\<rparr>)),
      EndpointSlices_List = (\<lambda>t ns opts. slices)\<rparr>"

text \<open>The values linkerd gives the constants, as one concrete input.\<close>

definition linkerdConstants :: k8s_constants where
  "linkerdConstants =
     \<lparr>ServiceProfileAPIVersion = ''linkerd.io/v1alpha2'',
      ServiceProfileKind = ''ServiceProfile'',
      LinkAPIGroup = ''multicluster.linkerd.io'',
      LinkAPIVersion = ''v1alpha1'',
      LinkAPIGroupVersion = ''multicluster.linkerd.io/v1alpha1'',
      LinkKind = ''Link''\<rparr>"

text \<open>Discovery tables: one that serves each probed group-version with its kind, one that
  serves lists without the kinds, and one that fails.\<close>

definition installed :: "string \<Rightarrow> error + APIResourceList" where
  "installed gv =
     Inr \<lparr>GroupVersion = gv,
          APIResources =
            [\<lparr>api_Name = ''serviceprofiles'', api_Kind = ''ServiceProfile''\<rparr>,
             \<lparr>api_Name = ''links'', api_Kind = ''Link''\<rparr>,
             \<lparr>api_Name = ''endpointslices'', api_Kind = ''EndpointSlice''\<rparr>]\<rparr>"

definition notInstalled :: "string \<Rightarrow> error + APIResourceList" where
  "notInstalled gv =
     Inr \<lparr>GroupVersion = gv,
          APIResources = [\<lparr>api_Name = ''widgets'', api_Kind = ''Widget''\<rparr>]\<rparr>"

definition unreachable :: "string \<Rightarrow> error + APIResourceList" where
  "unreachable gv = Inl (otherError ''connection refused'')"

definition allowedStatus :: SubjectAccessReviewStatus where
  "allowedStatus = \<lparr>Allowed = True, Denied = False, Reason = [], EvaluationError = []\<rparr>"

definition deniedStatus :: SubjectAccessReviewStatus where
  "deniedStatus =
     \<lparr>Allowed = False, Denied = False, Reason = ''user cannot list resource'',
      EvaluationError = []\<rparr>"

definition oneSlice :: EndpointSliceList where
  "oneSlice = \<lparr>Items = [\<lparr>es_Namespace = ''default'', es_Name = ''kubernetes''\<rparr>]\<rparr>"

definition noSlices :: EndpointSliceList where
  "noSlices = \<lparr>Items = []\<rparr>"

section \<open>Each function as a case distinction on the client's answers\<close>

lemma ResourceAuthz_eq:
  "ResourceAuthz k namespace verb grp version resource name t =
     (case SelfSubjectAccessReviews_Create k t
             (selfQuery namespace verb grp version resource name) of
        Inl err \<Rightarrow> Some err
      | Inr result \<Rightarrow> evaluateAccessReviewStatus grp resource (ssar_Status result),
      t @ [CreateSSAR (selfQuery namespace verb grp version resource name)])"
  by (simp add: ResourceAuthz_def selfQuery_def Let_def split: sum.split)

lemma ResourceAuthzForUser_eq:
  "ResourceAuthzForUser k namespace verb grp version resource subresource name user userGroups t =
     (case SubjectAccessReviews_Create k t
             (subjectQuery namespace verb grp version resource subresource name
                user userGroups) of
        Inl err \<Rightarrow> Some err
      | Inr result \<Rightarrow> evaluateAccessReviewStatus grp resource (sar_Status result),
      t @ [CreateSAR (subjectQuery namespace verb grp version resource subresource name
                        user userGroups)])"
  by (simp add: ResourceAuthzForUser_def subjectQuery_def Let_def split: sum.split)

lemma ServiceProfilesAccess_range_eq:
  "ServiceProfilesAccess_range k c rs t =
     (if ServiceProfileKind c \<in> set (map api_Kind rs)
      then (Some (fst (ResourceAuthz k [] ''list'' ''linkerd.io'' [] ''serviceprofiles'' [] t)),
            snd (ResourceAuthz k [] ''list'' ''linkerd.io'' [] ''serviceprofiles'' [] t))
      else (None, t))"
  by (induction rs) (auto simp: case_prod_beta)

lemma LinkAccess_range_eq:
  "LinkAccess_range k c rs t =
     (if LinkKind c \<in> set (map api_Kind rs)
      then (Some (fst (ResourceAuthz k [] ''list'' (LinkAPIGroup c) (LinkAPIVersion c)
                         ''links'' [] t)),
            snd (ResourceAuthz k [] ''list'' (LinkAPIGroup c) (LinkAPIVersion c)
                   ''links'' [] t))
      else (None, t))"
  by (induction rs) (auto simp: case_prod_beta)

lemma EndpointSliceAccess_range_eq:
  "EndpointSliceAccess_range k rs t =
     (if ''EndpointSlice'' \<in> set (map api_Kind rs)
      then (Some (fst (checkEndpointSlicesExist k t)), snd (checkEndpointSlicesExist k t))
      else (None, t))"
  by (induction rs) (auto simp: case_prod_beta)

lemma ServiceProfilesAccess_eq:
  "ServiceProfilesAccess k c t =
     (case ServerResourcesForGroupVersion k t (ServiceProfileAPIVersion c) of
        Inl err \<Rightarrow> (Some err, t @ [Discover (ServiceProfileAPIVersion c)])
      | Inr res \<Rightarrow>
          if GroupVersion res = ServiceProfileAPIVersion c \<and>
             ServiceProfileKind c \<in> set (map api_Kind (APIResources res))
          then ResourceAuthz k [] ''list'' ''linkerd.io'' [] ''serviceprofiles'' []
                 (t @ [Discover (ServiceProfileAPIVersion c)])
          else (Some (errorString ''ServiceProfile CRD not found''),
                t @ [Discover (ServiceProfileAPIVersion c)]))"
  by (simp add: ServiceProfilesAccess_def ServiceProfilesAccess_range_eq Let_def
        split: sum.split)

lemma LinkAccess_eq:
  "LinkAccess k c t =
     (case ServerResourcesForGroupVersion k t (LinkAPIGroupVersion c) of
        Inl err \<Rightarrow> (Some err, t @ [Discover (LinkAPIGroupVersion c)])
      | Inr res \<Rightarrow>
          if GroupVersion res = LinkAPIGroupVersion c \<and>
             LinkKind c \<in> set (map api_Kind (APIResources res))
          then ResourceAuthz k [] ''list'' (LinkAPIGroup c) (LinkAPIVersion c) ''links'' []
                 (t @ [Discover (LinkAPIGroupVersion c)])
          else (Some (errorString ''Link CRD not found''),
                t @ [Discover (LinkAPIGroupVersion c)]))"
  by (simp add: LinkAccess_def LinkAccess_range_eq Let_def split: sum.split)

lemma EndpointSliceAccess_eq:
  "EndpointSliceAccess k t =
     (case ServerResourcesForGroupVersion k t (GroupVersion_String SchemeGroupVersion) of
        Inl err \<Rightarrow> (Some err, t @ [Discover (GroupVersion_String SchemeGroupVersion)])
      | Inr res \<Rightarrow>
          if GroupVersion res = GroupVersion_String SchemeGroupVersion \<and>
             ''EndpointSlice'' \<in> set (map api_Kind (APIResources res))
          then checkEndpointSlicesExist k
                 (t @ [Discover (GroupVersion_String SchemeGroupVersion)])
          else (Some (errorString ''EndpointSlice resource not found''),
                t @ [Discover (GroupVersion_String SchemeGroupVersion)]))"
  by (simp add: EndpointSliceAccess_def EndpointSliceAccess_range_eq Let_def
        split: sum.split)

lemma discovery_gv: "GroupVersion_String SchemeGroupVersion = ''discovery.k8s.io/v1beta1''"
  by (simp add: GroupVersion_String_def SchemeGroupVersion_def)

lemma ServiceProfilesAccess_calls:
  "snd (ServiceProfilesAccess k c t) =
     t @ (if capabilityPresent
               (ServerResourcesForGroupVersion k t (ServiceProfileAPIVersion c))
               (ServiceProfileAPIVersion c) (ServiceProfileKind c)
          then [Discover (ServiceProfileAPIVersion c),
                CreateSSAR (selfQuery [] ''list'' ''linkerd.io'' [] ''serviceprofiles'' [])]
          else [Discover (ServiceProfileAPIVersion c)])"
  by (simp add: ServiceProfilesAccess_eq ResourceAuthz_eq capabilityPresent_def
        split: sum.split)

lemma LinkAccess_calls:
  "snd (LinkAccess k c t) =
     t @ (if capabilityPresent
               (ServerResourcesForGroupVersion k t (LinkAPIGroupVersion c))
               (LinkAPIGroupVersion c) (LinkKind c)
          then [Discover (LinkAPIGroupVersion c),
                CreateSSAR (selfQuery [] ''list'' (LinkAPIGroup c) (LinkAPIVersion c)
                              ''links'' [])]
          else [Discover (LinkAPIGroupVersion c)])"
  by (simp add: LinkAccess_eq ResourceAuthz_eq capabilityPresent_def split: sum.split)

lemma EndpointSliceAccess_calls:
  "snd (EndpointSliceAccess k t) =
     t @ (if capabilityPresent
               (ServerResourcesForGroupVersion k t ''discovery.k8s.io/v1beta1'')
               ''discovery.k8s.io/v1beta1'' ''EndpointSlice''
          then [Discover ''discovery.k8s.io/v1beta1'', ListEndpointSlices [] zero_ListOptions]
          else [Discover ''discovery.k8s.io/v1beta1''])"
  by (simp add: EndpointSliceAccess_eq discovery_gv checkEndpointSlicesExist_def
        capabilityPresent_def split: sum.split)

lemma ServiceProfilesAccess_absent:
  "ServerResourcesForGroupVersion k t (ServiceProfileAPIVersion c) = Inr res \<Longrightarrow>
   \<not> capabilityPresent (Inr res) (ServiceProfileAPIVersion c) (ServiceProfileKind c) \<Longrightarrow>
   fst (ServiceProfilesAccess k c t) = Some (errorString ''ServiceProfile CRD not found'')"
  by (auto simp: ServiceProfilesAccess_eq capabilityPresent_def)

lemma LinkAccess_absent:
  "ServerResourcesForGroupVersion k t (LinkAPIGroupVersion c) = Inr res \<Longrightarrow>
   \<not> capabilityPresent (Inr res) (LinkAPIGroupVersion c) (LinkKind c) \<Longrightarrow>
   fst (LinkAccess k c t) = Some (errorString ''Link CRD not found'')"
  by (auto simp: LinkAccess_eq capabilityPresent_def)

lemma EndpointSliceAccess_absent:
  "ServerResourcesForGroupVersion k t ''discovery.k8s.io/v1beta1'' = Inr res \<Longrightarrow>
   \<not> capabilityPresent (Inr res) ''discovery.k8s.io/v1beta1'' ''EndpointSlice'' \<Longrightarrow>
   fst (EndpointSliceAccess k t) = Some (errorString ''EndpointSlice resource not found'')"
  by (auto simp: EndpointSliceAccess_eq discovery_gv capabilityPresent_def)

lemmas double_defs =
  fakeClient_def linkerdConstants_def installed_def notInstalled_def unreachable_def
  allowedStatus_def deniedStatus_def oneSlice_def noSlices_def

section \<open>The access decision\<close>

text \<open>C5. A status with \<open>Allowed = true\<close> makes \<open>evaluateAccessReviewStatus\<close> return \<open>nil\<close>,
  whatever the group, the resource, the reason and the other fields of the status are.\<close>

theorem evaluate_allowed:
  "Allowed status \<Longrightarrow> evaluateAccessReviewStatus grp resource status = None"
  by (simp add: evaluateAccessReviewStatus_def)

text \<open>C5 at an allowed status that carries a reason.\<close>

theorem evaluate_allowed_witness:
  "Allowed \<lparr>Allowed = True, Denied = False, Reason = ''user cannot list resource'',
            EvaluationError = []\<rparr> \<and>
   evaluateAccessReviewStatus ''linkerd.io'' ''serviceprofiles''
     \<lparr>Allowed = True, Denied = False, Reason = ''user cannot list resource'',
      EvaluationError = []\<rparr> = None"
  using evaluate_allowed [of "\<lparr>Allowed = True, Denied = False,
      Reason = ''user cannot list resource'', EvaluationError = []\<rparr>"
      "''linkerd.io''" "''serviceprofiles''"]
  by simp

text \<open>C2, with the identifier as the code prints it. A status with \<open>Allowed = false\<close> makes \<open>evaluateAccessReviewStatus\<close>
  fail with the message \<open>not authorized to access ID: REASON\<close> when the reason is not empty and
  \<open>not authorized to access ID\<close>, with no colon and nothing after the identifier, when it is
  empty. \<open>ID\<close> is what \<open>%s\<close> prints for the \<open>schema.GroupKind\<close>: the kind, a dot and the group
  (\<open>serviceprofiles.linkerd.io\<close>), or the kind alone when the group is empty (\<open>pods\<close>). It is a
  function of the group and the kind only.\<close>

theorem evaluate_denied_message:
  "\<not> Allowed status \<Longrightarrow>
   evaluateAccessReviewStatus grp resource status =
     Some (errorString
       (''not authorized to access '' @
        (if grp = [] then resource else resource @ ''.'' @ grp) @
        (if Reason status = [] then [] else '': '' @ Reason status)))"
  by (simp add: evaluateAccessReviewStatus_def GroupKind_String_def Let_def)

text \<open>C2, so read, at two denied statuses: one with a reason and a group, one with
  neither.\<close>

theorem evaluate_denied_message_witness:
  "\<not> Allowed deniedStatus \<and>
   evaluateAccessReviewStatus ''linkerd.io'' ''serviceprofiles'' deniedStatus =
     Some (errorString
       ''not authorized to access serviceprofiles.linkerd.io: user cannot list resource'') \<and>
   \<not> Allowed zero_Status \<and>
   evaluateAccessReviewStatus [] ''pods'' zero_Status =
     Some (errorString ''not authorized to access pods'')"
  using evaluate_denied_message [of deniedStatus "''linkerd.io''" "''serviceprofiles''"]
    evaluate_denied_message [of zero_Status "[]" "''pods''"]
  by (simp add: deniedStatus_def zero_Status_def)

text \<open>C2 with the identifier laid out as group, slash, kind is not what the code
  returns: for group \<open>linkerd.io\<close>, resource \<open>serviceprofiles\<close> and an empty
  reason the message is not \<open>not authorized to access linkerd.io/serviceprofiles\<close>.\<close>

theorem evaluate_denied_message_counterexample:
  "evaluateAccessReviewStatus ''linkerd.io'' ''serviceprofiles'' zero_Status \<noteq>
     Some (errorString ''not authorized to access linkerd.io/serviceprofiles'')"
  by (simp add: evaluateAccessReviewStatus_def GroupKind_String_def zero_Status_def)

section \<open>Cluster-wide pod access\<close>

text \<open>C6. \<open>ClusterAccess\<close> makes exactly one call, and it is not a discovery call: it submits
  one self-subject access review with verb \<open>list\<close>, resource \<open>pods\<close> and an empty group,
  version, namespace and name. When the client answers that review with
  \<open>Allowed = true\<close>, the check returns \<open>nil\<close>.\<close>

theorem ClusterAccess_authz_only:
  "snd (ClusterAccess k t) =
     t @ [CreateSSAR
            \<lparr>ssar_Spec = \<lparr>ssar_ResourceAttributes = Some
               \<lparr>Namespace = [], Verb = ''list'', Group = [], Version = [],
                Resource = ''pods'', Subresource = [], Name = []\<rparr>\<rparr>,
             ssar_Status = zero_Status\<rparr>] \<and>
   (SelfSubjectAccessReviews_Create k t
      \<lparr>ssar_Spec = \<lparr>ssar_ResourceAttributes = Some
         \<lparr>Namespace = [], Verb = ''list'', Group = [], Version = [],
          Resource = ''pods'', Subresource = [], Name = []\<rparr>\<rparr>,
       ssar_Status = zero_Status\<rparr> = Inr result \<longrightarrow>
    Allowed (ssar_Status result) \<longrightarrow> fst (ClusterAccess k t) = None)"
  by (simp add: ClusterAccess_def ResourceAuthz_eq selfQuery_def evaluateAccessReviewStatus_def)

text \<open>C6 on a client whose discovery fails and whose access reviews are allowed: the pod
  check succeeds with one call, the access review.\<close>

theorem ClusterAccess_authz_only_witness:
  "SelfSubjectAccessReviews_Create (fakeClient unreachable (Inr allowedStatus) (Inr noSlices)) []
     \<lparr>ssar_Spec = \<lparr>ssar_ResourceAttributes = Some
        \<lparr>Namespace = [], Verb = ''list'', Group = [], Version = [],
         Resource = ''pods'', Subresource = [], Name = []\<rparr>\<rparr>,
      ssar_Status = zero_Status\<rparr> =
     Inr \<lparr>ssar_Spec = \<lparr>ssar_ResourceAttributes = Some
            \<lparr>Namespace = [], Verb = ''list'', Group = [], Version = [],
             Resource = ''pods'', Subresource = [], Name = []\<rparr>\<rparr>,
          ssar_Status = allowedStatus\<rparr> \<and>
   Allowed allowedStatus \<and>
   ClusterAccess (fakeClient unreachable (Inr allowedStatus) (Inr noSlices)) [] =
     (None,
      [CreateSSAR
         \<lparr>ssar_Spec = \<lparr>ssar_ResourceAttributes = Some
            \<lparr>Namespace = [], Verb = ''list'', Group = [], Version = [],
             Resource = ''pods'', Subresource = [], Name = []\<rparr>\<rparr>,
          ssar_Status = zero_Status\<rparr>])"
  using ClusterAccess_authz_only
    [where k = "fakeClient unreachable (Inr allowedStatus) (Inr noSlices)" and t = "[]"
       and result = "\<lparr>ssar_Spec = \<lparr>ssar_ResourceAttributes = Some
            \<lparr>Namespace = [], Verb = ''list'', Group = [], Version = [],
             Resource = ''pods'', Subresource = [], Name = []\<rparr>\<rparr>,
          ssar_Status = allowedStatus\<rparr>"]
  by (simp add: double_defs zero_Status_def prod_eq_iff)

section \<open>Discovery before authorization\<close>

text \<open>C1. In each of the three checks that probe discovery (\<open>ServiceProfilesAccess\<close>,
  \<open>LinkAccess\<close>, \<open>EndpointSliceAccess\<close>), when discovery answers with a list: if the list's
  own group-version string differs from the probed one, or no entry of the list has the
  expected kind, the check fails with its not-found error (\<open>ServiceProfile CRD not found\<close>,
  \<open>Link CRD not found\<close>, \<open>EndpointSlice resource not found\<close>) after the discovery call alone;
  otherwise the check is the continuation (\<open>ResourceAuthz\<close> on the resource, or
  \<open>checkEndpointSlicesExist\<close>) run after the discovery call, its result returned as it is.\<close>

theorem capability_probe_outcome:
  "(ServerResourcesForGroupVersion k t (ServiceProfileAPIVersion c) = Inr resP \<longrightarrow>
      ServiceProfilesAccess k c t =
        (if GroupVersion resP \<noteq> ServiceProfileAPIVersion c \<or>
            ServiceProfileKind c \<notin> set (map api_Kind (APIResources resP))
         then (Some (errorString ''ServiceProfile CRD not found''),
               t @ [Discover (ServiceProfileAPIVersion c)])
         else ResourceAuthz k [] ''list'' ''linkerd.io'' [] ''serviceprofiles'' []
                (t @ [Discover (ServiceProfileAPIVersion c)]))) \<and>
   (ServerResourcesForGroupVersion k t (LinkAPIGroupVersion c) = Inr resL \<longrightarrow>
      LinkAccess k c t =
        (if GroupVersion resL \<noteq> LinkAPIGroupVersion c \<or>
            LinkKind c \<notin> set (map api_Kind (APIResources resL))
         then (Some (errorString ''Link CRD not found''),
               t @ [Discover (LinkAPIGroupVersion c)])
         else ResourceAuthz k [] ''list'' (LinkAPIGroup c) (LinkAPIVersion c) ''links'' []
                (t @ [Discover (LinkAPIGroupVersion c)]))) \<and>
   (ServerResourcesForGroupVersion k t (GroupVersion_String SchemeGroupVersion) = Inr resE \<longrightarrow>
      EndpointSliceAccess k t =
        (if GroupVersion resE \<noteq> GroupVersion_String SchemeGroupVersion \<or>
            ''EndpointSlice'' \<notin> set (map api_Kind (APIResources resE))
         then (Some (errorString ''EndpointSlice resource not found''),
               t @ [Discover (GroupVersion_String SchemeGroupVersion)])
         else checkEndpointSlicesExist k
                (t @ [Discover (GroupVersion_String SchemeGroupVersion)])))"
  by (simp add: ServiceProfilesAccess_eq LinkAccess_eq EndpointSliceAccess_eq)

text \<open>C1 on a cluster whose discovery lists do not have the kinds, and on one whose lists
  have them and whose access reviews are denied.\<close>

theorem capability_probe_outcome_witness:
  "ServerResourcesForGroupVersion (fakeClient notInstalled (Inr allowedStatus) (Inr oneSlice)) []
     (ServiceProfileAPIVersion linkerdConstants) =
     Inr \<lparr>GroupVersion = ''linkerd.io/v1alpha2'',
          APIResources = [\<lparr>api_Name = ''widgets'', api_Kind = ''Widget''\<rparr>]\<rparr> \<and>
   ServiceProfilesAccess (fakeClient notInstalled (Inr allowedStatus) (Inr oneSlice))
     linkerdConstants [] =
     (Some (errorString ''ServiceProfile CRD not found''), [Discover ''linkerd.io/v1alpha2'']) \<and>
   ServerResourcesForGroupVersion (fakeClient notInstalled (Inr allowedStatus) (Inr oneSlice)) []
     (LinkAPIGroupVersion linkerdConstants) =
     Inr \<lparr>GroupVersion = ''multicluster.linkerd.io/v1alpha1'',
          APIResources = [\<lparr>api_Name = ''widgets'', api_Kind = ''Widget''\<rparr>]\<rparr> \<and>
   LinkAccess (fakeClient notInstalled (Inr allowedStatus) (Inr oneSlice))
     linkerdConstants [] =
     (Some (errorString ''Link CRD not found''),
      [Discover ''multicluster.linkerd.io/v1alpha1'']) \<and>
   ServerResourcesForGroupVersion (fakeClient notInstalled (Inr allowedStatus) (Inr oneSlice)) []
     (GroupVersion_String SchemeGroupVersion) =
     Inr \<lparr>GroupVersion = ''discovery.k8s.io/v1beta1'',
          APIResources = [\<lparr>api_Name = ''widgets'', api_Kind = ''Widget''\<rparr>]\<rparr> \<and>
   EndpointSliceAccess (fakeClient notInstalled (Inr allowedStatus) (Inr oneSlice)) [] =
     (Some (errorString ''EndpointSlice resource not found''),
      [Discover ''discovery.k8s.io/v1beta1'']) \<and>
   ServerResourcesForGroupVersion (fakeClient installed (Inr deniedStatus) (Inr noSlices)) []
     (ServiceProfileAPIVersion linkerdConstants) = installed ''linkerd.io/v1alpha2'' \<and>
   ServiceProfilesAccess (fakeClient installed (Inr deniedStatus) (Inr noSlices))
     linkerdConstants [] =
     ResourceAuthz (fakeClient installed (Inr deniedStatus) (Inr noSlices))
       [] ''list'' ''linkerd.io'' [] ''serviceprofiles'' [] [Discover ''linkerd.io/v1alpha2''] \<and>
   ServerResourcesForGroupVersion (fakeClient installed (Inr deniedStatus) (Inr noSlices)) []
     (LinkAPIGroupVersion linkerdConstants) = installed ''multicluster.linkerd.io/v1alpha1'' \<and>
   LinkAccess (fakeClient installed (Inr deniedStatus) (Inr noSlices)) linkerdConstants [] =
     ResourceAuthz (fakeClient installed (Inr deniedStatus) (Inr noSlices))
       [] ''list'' ''multicluster.linkerd.io'' ''v1alpha1'' ''links'' []
       [Discover ''multicluster.linkerd.io/v1alpha1''] \<and>
   ServerResourcesForGroupVersion (fakeClient installed (Inr deniedStatus) (Inr noSlices)) []
     (GroupVersion_String SchemeGroupVersion) = installed ''discovery.k8s.io/v1beta1'' \<and>
   EndpointSliceAccess (fakeClient installed (Inr deniedStatus) (Inr noSlices)) [] =
     checkEndpointSlicesExist (fakeClient installed (Inr deniedStatus) (Inr noSlices))
       [Discover ''discovery.k8s.io/v1beta1''] \<and>
   ServiceProfilesAccess (fakeClient installed (Inr deniedStatus) (Inr noSlices))
     linkerdConstants [] =
     (Some (errorString
        ''not authorized to access serviceprofiles.linkerd.io: user cannot list resource''),
      [Discover ''linkerd.io/v1alpha2'',
       CreateSSAR (selfQuery [] ''list'' ''linkerd.io'' [] ''serviceprofiles'' [])])"
  using capability_probe_outcome
    [of "fakeClient notInstalled (Inr allowedStatus) (Inr oneSlice)" "[]" linkerdConstants
        "\<lparr>GroupVersion = ''linkerd.io/v1alpha2'',
          APIResources = [\<lparr>api_Name = ''widgets'', api_Kind = ''Widget''\<rparr>]\<rparr>"
        "\<lparr>GroupVersion = ''multicluster.linkerd.io/v1alpha1'',
          APIResources = [\<lparr>api_Name = ''widgets'', api_Kind = ''Widget''\<rparr>]\<rparr>"
        "\<lparr>GroupVersion = ''discovery.k8s.io/v1beta1'',
          APIResources = [\<lparr>api_Name = ''widgets'', api_Kind = ''Widget''\<rparr>]\<rparr>"]
    capability_probe_outcome
    [where k = "fakeClient installed (Inr deniedStatus) (Inr noSlices)" and t = "[]"
       and c = linkerdConstants
       and resP = "\<lparr>GroupVersion = ''linkerd.io/v1alpha2'',
          APIResources =
            [\<lparr>api_Name = ''serviceprofiles'', api_Kind = ''ServiceProfile''\<rparr>,
             \<lparr>api_Name = ''links'', api_Kind = ''Link''\<rparr>,
             \<lparr>api_Name = ''endpointslices'', api_Kind = ''EndpointSlice''\<rparr>]\<rparr>"
       and resL = "\<lparr>GroupVersion = ''multicluster.linkerd.io/v1alpha1'',
          APIResources =
            [\<lparr>api_Name = ''serviceprofiles'', api_Kind = ''ServiceProfile''\<rparr>,
             \<lparr>api_Name = ''links'', api_Kind = ''Link''\<rparr>,
             \<lparr>api_Name = ''endpointslices'', api_Kind = ''EndpointSlice''\<rparr>]\<rparr>"
       and resE = "\<lparr>GroupVersion = ''discovery.k8s.io/v1beta1'',
          APIResources =
            [\<lparr>api_Name = ''serviceprofiles'', api_Kind = ''ServiceProfile''\<rparr>,
             \<lparr>api_Name = ''links'', api_Kind = ''Link''\<rparr>,
             \<lparr>api_Name = ''endpointslices'', api_Kind = ''EndpointSlice''\<rparr>]\<rparr>"]
  by (simp add: double_defs GroupVersion_String_def SchemeGroupVersion_def ResourceAuthz_eq
        selfQuery_def evaluateAccessReviewStatus_def GroupKind_String_def)

text \<open>C3. In each check that probes a capability, the calls made are the discovery call
  first and, only when its answer confirms the capability (a list with the probed
  group-version string and an entry of the expected kind), one more call after it: the
  self-subject access review for \<open>ServiceProfilesAccess\<close> and \<open>LinkAccess\<close>, the listing for
  \<open>EndpointSliceAccess\<close>. When discovery answers with a list that does not confirm the
  capability, the check returns its not-found error, and no access review was submitted.
  (\<open>ClusterAccess\<close> probes no capability.)\<close>

theorem discovery_precedes_authorization:
  "snd (ServiceProfilesAccess k c t) =
     t @ (if capabilityPresent
               (ServerResourcesForGroupVersion k t (ServiceProfileAPIVersion c))
               (ServiceProfileAPIVersion c) (ServiceProfileKind c)
          then [Discover (ServiceProfileAPIVersion c),
                CreateSSAR (selfQuery [] ''list'' ''linkerd.io'' [] ''serviceprofiles'' [])]
          else [Discover (ServiceProfileAPIVersion c)]) \<and>
   (ServerResourcesForGroupVersion k t (ServiceProfileAPIVersion c) = Inr resP \<longrightarrow>
    \<not> capabilityPresent (Inr resP) (ServiceProfileAPIVersion c) (ServiceProfileKind c) \<longrightarrow>
      fst (ServiceProfilesAccess k c t) = Some (errorString ''ServiceProfile CRD not found'')) \<and>
   snd (LinkAccess k c t) =
     t @ (if capabilityPresent
               (ServerResourcesForGroupVersion k t (LinkAPIGroupVersion c))
               (LinkAPIGroupVersion c) (LinkKind c)
          then [Discover (LinkAPIGroupVersion c),
                CreateSSAR (selfQuery [] ''list'' (LinkAPIGroup c) (LinkAPIVersion c)
                              ''links'' [])]
          else [Discover (LinkAPIGroupVersion c)]) \<and>
   (ServerResourcesForGroupVersion k t (LinkAPIGroupVersion c) = Inr resL \<longrightarrow>
    \<not> capabilityPresent (Inr resL) (LinkAPIGroupVersion c) (LinkKind c) \<longrightarrow>
      fst (LinkAccess k c t) = Some (errorString ''Link CRD not found'')) \<and>
   snd (EndpointSliceAccess k t) =
     t @ (if capabilityPresent
               (ServerResourcesForGroupVersion k t ''discovery.k8s.io/v1beta1'')
               ''discovery.k8s.io/v1beta1'' ''EndpointSlice''
          then [Discover ''discovery.k8s.io/v1beta1'', ListEndpointSlices [] zero_ListOptions]
          else [Discover ''discovery.k8s.io/v1beta1'']) \<and>
   (ServerResourcesForGroupVersion k t ''discovery.k8s.io/v1beta1'' = Inr resE \<longrightarrow>
    \<not> capabilityPresent (Inr resE) ''discovery.k8s.io/v1beta1'' ''EndpointSlice'' \<longrightarrow>
      fst (EndpointSliceAccess k t) = Some (errorString ''EndpointSlice resource not found''))"
  using ServiceProfilesAccess_calls [of k c t] LinkAccess_calls [of k c t]
    EndpointSliceAccess_calls [of k t]
    ServiceProfilesAccess_absent [of k t c resP] LinkAccess_absent [of k t c resL]
    EndpointSliceAccess_absent [of k t resE]
  by blast

text \<open>C3 on a cluster without the kinds (each check makes the discovery call alone and
  returns its not-found error) and, after an earlier call, on a cluster with them (the access
  review follows the discovery call).\<close>

theorem discovery_precedes_authorization_witness:
  "ServerResourcesForGroupVersion (fakeClient notInstalled (Inr allowedStatus) (Inr oneSlice)) []
     (ServiceProfileAPIVersion linkerdConstants) = notInstalled ''linkerd.io/v1alpha2'' \<and>
   \<not> capabilityPresent (notInstalled ''linkerd.io/v1alpha2'')
       (ServiceProfileAPIVersion linkerdConstants) (ServiceProfileKind linkerdConstants) \<and>
   ServiceProfilesAccess (fakeClient notInstalled (Inr allowedStatus) (Inr oneSlice))
     linkerdConstants [] =
     (Some (errorString ''ServiceProfile CRD not found''), [Discover ''linkerd.io/v1alpha2'']) \<and>
   ServerResourcesForGroupVersion (fakeClient notInstalled (Inr allowedStatus) (Inr oneSlice)) []
     (LinkAPIGroupVersion linkerdConstants) =
     notInstalled ''multicluster.linkerd.io/v1alpha1'' \<and>
   \<not> capabilityPresent (notInstalled ''multicluster.linkerd.io/v1alpha1'')
       (LinkAPIGroupVersion linkerdConstants) (LinkKind linkerdConstants) \<and>
   LinkAccess (fakeClient notInstalled (Inr allowedStatus) (Inr oneSlice))
     linkerdConstants [] =
     (Some (errorString ''Link CRD not found''),
      [Discover ''multicluster.linkerd.io/v1alpha1'']) \<and>
   ServerResourcesForGroupVersion (fakeClient notInstalled (Inr allowedStatus) (Inr oneSlice)) []
     ''discovery.k8s.io/v1beta1'' = notInstalled ''discovery.k8s.io/v1beta1'' \<and>
   \<not> capabilityPresent (notInstalled ''discovery.k8s.io/v1beta1'')
       ''discovery.k8s.io/v1beta1'' ''EndpointSlice'' \<and>
   EndpointSliceAccess (fakeClient notInstalled (Inr allowedStatus) (Inr oneSlice)) [] =
     (Some (errorString ''EndpointSlice resource not found''),
      [Discover ''discovery.k8s.io/v1beta1'']) \<and>
   snd (ServiceProfilesAccess (fakeClient installed (Inr deniedStatus) (Inr oneSlice))
          linkerdConstants [Discover ''v1'']) =
     [Discover ''v1'', Discover ''linkerd.io/v1alpha2'',
      CreateSSAR (selfQuery [] ''list'' ''linkerd.io'' [] ''serviceprofiles'' [])]"
  using discovery_precedes_authorization
      [where k = "fakeClient notInstalled (Inr allowedStatus) (Inr oneSlice)" and t = "[]"
         and c = linkerdConstants
         and resP = "\<lparr>GroupVersion = ''linkerd.io/v1alpha2'',
               APIResources = [\<lparr>api_Name = ''widgets'', api_Kind = ''Widget''\<rparr>]\<rparr>"
         and resL = "\<lparr>GroupVersion = ''multicluster.linkerd.io/v1alpha1'',
               APIResources = [\<lparr>api_Name = ''widgets'', api_Kind = ''Widget''\<rparr>]\<rparr>"
         and resE = "\<lparr>GroupVersion = ''discovery.k8s.io/v1beta1'',
               APIResources = [\<lparr>api_Name = ''widgets'', api_Kind = ''Widget''\<rparr>]\<rparr>"]
    discovery_precedes_authorization
      [where k = "fakeClient installed (Inr deniedStatus) (Inr oneSlice)"
         and t = "[Discover ''v1'']" and c = linkerdConstants]
  by (simp add: double_defs capabilityPresent_def prod_eq_iff)

text \<open>C9. When discovery confirms the capability, \<open>ServiceProfilesAccess\<close> probes discovery
  with \<open>ServiceProfileAPIVersion\<close> and then submits an access review whose \<open>Version\<close> is the
  empty string (group \<open>linkerd.io\<close>, resource \<open>serviceprofiles\<close>), whereas \<open>LinkAccess\<close> submits
  one whose group and version are \<open>LinkAPIGroup\<close> and \<open>LinkAPIVersion\<close>.\<close>

theorem profile_query_unversioned_link_query_versioned:
  "(capabilityPresent (ServerResourcesForGroupVersion k t (ServiceProfileAPIVersion c))
      (ServiceProfileAPIVersion c) (ServiceProfileKind c) \<longrightarrow>
    snd (ServiceProfilesAccess k c t) =
      t @ [Discover (ServiceProfileAPIVersion c),
           CreateSSAR
             \<lparr>ssar_Spec = \<lparr>ssar_ResourceAttributes = Some
                \<lparr>Namespace = [], Verb = ''list'', Group = ''linkerd.io'', Version = [],
                 Resource = ''serviceprofiles'', Subresource = [], Name = []\<rparr>\<rparr>,
              ssar_Status = zero_Status\<rparr>]) \<and>
   (capabilityPresent (ServerResourcesForGroupVersion k t (LinkAPIGroupVersion c))
      (LinkAPIGroupVersion c) (LinkKind c) \<longrightarrow>
    snd (LinkAccess k c t) =
      t @ [Discover (LinkAPIGroupVersion c),
           CreateSSAR
             \<lparr>ssar_Spec = \<lparr>ssar_ResourceAttributes = Some
                \<lparr>Namespace = [], Verb = ''list'', Group = LinkAPIGroup c,
                 Version = LinkAPIVersion c, Resource = ''links'', Subresource = [],
                 Name = []\<rparr>\<rparr>,
              ssar_Status = zero_Status\<rparr>])"
  by (simp add: ServiceProfilesAccess_eq LinkAccess_eq ResourceAuthz_eq selfQuery_def
        capabilityPresent_def split: sum.split)

text \<open>C9 with linkerd's constants: the profile probe names \<open>linkerd.io/v1alpha2\<close> and the
  review has no version; the link review has version \<open>v1alpha1\<close>.\<close>

theorem profile_query_unversioned_link_query_versioned_witness:
  "capabilityPresent
     (ServerResourcesForGroupVersion (fakeClient installed (Inr allowedStatus) (Inr oneSlice)) []
        (ServiceProfileAPIVersion linkerdConstants))
     (ServiceProfileAPIVersion linkerdConstants) (ServiceProfileKind linkerdConstants) \<and>
   snd (ServiceProfilesAccess (fakeClient installed (Inr allowedStatus) (Inr oneSlice))
          linkerdConstants []) =
     [Discover ''linkerd.io/v1alpha2'',
      CreateSSAR
        \<lparr>ssar_Spec = \<lparr>ssar_ResourceAttributes = Some
           \<lparr>Namespace = [], Verb = ''list'', Group = ''linkerd.io'', Version = [],
            Resource = ''serviceprofiles'', Subresource = [], Name = []\<rparr>\<rparr>,
         ssar_Status = zero_Status\<rparr>] \<and>
   capabilityPresent
     (ServerResourcesForGroupVersion (fakeClient installed (Inr allowedStatus) (Inr oneSlice)) []
        (LinkAPIGroupVersion linkerdConstants))
     (LinkAPIGroupVersion linkerdConstants) (LinkKind linkerdConstants) \<and>
   snd (LinkAccess (fakeClient installed (Inr allowedStatus) (Inr oneSlice))
          linkerdConstants []) =
     [Discover ''multicluster.linkerd.io/v1alpha1'',
      CreateSSAR
        \<lparr>ssar_Spec = \<lparr>ssar_ResourceAttributes = Some
           \<lparr>Namespace = [], Verb = ''list'', Group = ''multicluster.linkerd.io'',
            Version = ''v1alpha1'', Resource = ''links'', Subresource = [], Name = []\<rparr>\<rparr>,
         ssar_Status = zero_Status\<rparr>]"
  using profile_query_unversioned_link_query_versioned
    [where k = "fakeClient installed (Inr allowedStatus) (Inr oneSlice)" and t = "[]"
       and c = linkerdConstants]
  by (simp add: double_defs capabilityPresent_def)

section \<open>Existence of instances\<close>

text \<open>C4. \<open>checkEndpointSlicesExist\<close> returns \<open>nil\<close> exactly when the listing (all namespaces,
  zero \<open>ListOptions\<close>) answers with a list of at least one item; on a list with no item
  it fails with \<open>no EndpointSlice resources exist in the cluster\<close>; an error of the listing
  is returned as it is. It makes the listing call and no other.\<close>

theorem checkEndpointSlicesExist_outcome:
  "(fst (checkEndpointSlicesExist k t) = None) =
     (case EndpointSlices_List k t [] zero_ListOptions of
        Inl err \<Rightarrow> False
      | Inr sliceList \<Rightarrow> 1 \<le> length (Items sliceList)) \<and>
   (EndpointSlices_List k t [] zero_ListOptions = Inr sl \<longrightarrow> Items sl = [] \<longrightarrow>
      fst (checkEndpointSlicesExist k t) =
        Some (errorString ''no EndpointSlice resources exist in the cluster'')) \<and>
   (EndpointSlices_List k t [] zero_ListOptions = Inl e \<longrightarrow>
      fst (checkEndpointSlicesExist k t) = Some e) \<and>
   snd (checkEndpointSlicesExist k t) = t @ [ListEndpointSlices [] zero_ListOptions]"
  by (auto simp: checkEndpointSlicesExist_def Suc_le_eq split: sum.split)

text \<open>C4 on an empty listing, a failing listing and a listing with one item.\<close>

theorem checkEndpointSlicesExist_outcome_witness:
  "EndpointSlices_List (fakeClient installed (Inr allowedStatus) (Inr noSlices)) []
     [] zero_ListOptions = Inr noSlices \<and>
   Items noSlices = [] \<and>
   fst (checkEndpointSlicesExist (fakeClient installed (Inr allowedStatus) (Inr noSlices)) []) =
     Some (errorString ''no EndpointSlice resources exist in the cluster'') \<and>
   EndpointSlices_List
     (fakeClient installed (Inr allowedStatus) (Inl (otherError ''connection refused''))) []
     [] zero_ListOptions = Inl (otherError ''connection refused'') \<and>
   fst (checkEndpointSlicesExist
     (fakeClient installed (Inr allowedStatus) (Inl (otherError ''connection refused''))) []) =
     Some (otherError ''connection refused'') \<and>
   fst (checkEndpointSlicesExist (fakeClient installed (Inr allowedStatus) (Inr oneSlice)) []) =
     None"
  using checkEndpointSlicesExist_outcome
      [of "fakeClient installed (Inr allowedStatus) (Inr noSlices)" "[]" noSlices]
    checkEndpointSlicesExist_outcome
      [of "fakeClient installed (Inr allowedStatus) (Inl (otherError ''connection refused''))"
          "[]" _ "otherError ''connection refused''"]
    checkEndpointSlicesExist_outcome
      [of "fakeClient installed (Inr allowedStatus) (Inr oneSlice)" "[]"]
  by (simp add: double_defs)

text \<open>C7. \<open>EndpointSliceAccess\<close> makes the discovery call and, when its answer confirms the
  \<open>EndpointSlice\<close> kind, the listing call; none of its calls is an access review. Once
  discovery has confirmed the kind and the listing answers with a list, the check returns
  \<open>nil\<close> if the list has at least one item and
  \<open>no EndpointSlice resources exist in the cluster\<close> otherwise.\<close>

theorem EndpointSliceAccess_no_access_review:
  "snd (EndpointSliceAccess k t) =
     t @ (if capabilityPresent
               (ServerResourcesForGroupVersion k t ''discovery.k8s.io/v1beta1'')
               ''discovery.k8s.io/v1beta1'' ''EndpointSlice''
          then [Discover ''discovery.k8s.io/v1beta1'', ListEndpointSlices [] zero_ListOptions]
          else [Discover ''discovery.k8s.io/v1beta1'']) \<and>
   filter isAccessReview (callsMade t (EndpointSliceAccess k t)) = [] \<and>
   (capabilityPresent (ServerResourcesForGroupVersion k t ''discovery.k8s.io/v1beta1'')
      ''discovery.k8s.io/v1beta1'' ''EndpointSlice'' \<longrightarrow>
    EndpointSlices_List k (t @ [Discover ''discovery.k8s.io/v1beta1'']) [] zero_ListOptions =
      Inr sl \<longrightarrow>
    fst (EndpointSliceAccess k t) =
      (if 1 \<le> length (Items sl) then None
       else Some (errorString ''no EndpointSlice resources exist in the cluster'')))"
  by (auto simp: EndpointSliceAccess_eq checkEndpointSlicesExist_def capabilityPresent_def
        callsMade_def GroupVersion_String_def SchemeGroupVersion_def Suc_le_eq
        split: sum.split)

text \<open>C7 on a cluster that serves the kind and denies every access review: with no
  slices the check fails for want of instances, with one slice it succeeds; the denial never
  shows.\<close>

theorem EndpointSliceAccess_no_access_review_witness:
  "capabilityPresent
     (ServerResourcesForGroupVersion (fakeClient installed (Inr deniedStatus) (Inr noSlices)) []
        ''discovery.k8s.io/v1beta1'')
     ''discovery.k8s.io/v1beta1'' ''EndpointSlice'' \<and>
   EndpointSlices_List (fakeClient installed (Inr deniedStatus) (Inr noSlices))
     [Discover ''discovery.k8s.io/v1beta1''] [] zero_ListOptions = Inr noSlices \<and>
   EndpointSliceAccess (fakeClient installed (Inr deniedStatus) (Inr noSlices)) [] =
     (Some (errorString ''no EndpointSlice resources exist in the cluster''),
      [Discover ''discovery.k8s.io/v1beta1'', ListEndpointSlices [] zero_ListOptions]) \<and>
   EndpointSlices_List (fakeClient installed (Inr deniedStatus) (Inr oneSlice))
     [Discover ''discovery.k8s.io/v1beta1''] [] zero_ListOptions = Inr oneSlice \<and>
   EndpointSliceAccess (fakeClient installed (Inr deniedStatus) (Inr oneSlice)) [] =
     (None, [Discover ''discovery.k8s.io/v1beta1'', ListEndpointSlices [] zero_ListOptions])"
  using EndpointSliceAccess_no_access_review
      [where k = "fakeClient installed (Inr deniedStatus) (Inr noSlices)" and t = "[]"
         and sl = noSlices]
    EndpointSliceAccess_no_access_review
      [where k = "fakeClient installed (Inr deniedStatus) (Inr oneSlice)" and t = "[]"
         and sl = oneSlice]
  by (simp add: double_defs capabilityPresent_def prod_eq_iff)

section \<open>Errors of the client\<close>

text \<open>C8. An error \<open>e\<close> of the client is the check's result, unchanged, and the call that
  failed is the last call made: a failing discovery ends \<open>ServiceProfilesAccess\<close>,
  \<open>LinkAccess\<close> and \<open>EndpointSliceAccess\<close> after that one call; a failing access-review
  submission ends \<open>ResourceAuthz\<close>, \<open>ResourceAuthzForUser\<close> and \<open>ClusterAccess\<close> after that
  one call, and \<open>ServiceProfilesAccess\<close> and \<open>LinkAccess\<close> after the discovery call and that
  one; a failing listing ends \<open>checkEndpointSlicesExist\<close> after that one call and
  \<open>EndpointSliceAccess\<close> after the discovery call and that one. No call is made twice.\<close>

theorem transport_errors_returned_unchanged:
  "(ServerResourcesForGroupVersion k t (ServiceProfileAPIVersion c) = Inl e \<longrightarrow>
      ServiceProfilesAccess k c t = (Some e, t @ [Discover (ServiceProfileAPIVersion c)])) \<and>
   (ServerResourcesForGroupVersion k t (LinkAPIGroupVersion c) = Inl e \<longrightarrow>
      LinkAccess k c t = (Some e, t @ [Discover (LinkAPIGroupVersion c)])) \<and>
   (ServerResourcesForGroupVersion k t ''discovery.k8s.io/v1beta1'' = Inl e \<longrightarrow>
      EndpointSliceAccess k t = (Some e, t @ [Discover ''discovery.k8s.io/v1beta1''])) \<and>
   (SelfSubjectAccessReviews_Create k t (selfQuery ns verb grp version resource name) = Inl e \<longrightarrow>
      ResourceAuthz k ns verb grp version resource name t =
        (Some e, t @ [CreateSSAR (selfQuery ns verb grp version resource name)])) \<and>
   (SubjectAccessReviews_Create k t
      (subjectQuery ns verb grp version resource subresource name user userGroups) = Inl e \<longrightarrow>
      ResourceAuthzForUser k ns verb grp version resource subresource name user userGroups t =
        (Some e, t @ [CreateSAR (subjectQuery ns verb grp version resource subresource name
                                   user userGroups)])) \<and>
   (EndpointSlices_List k t [] zero_ListOptions = Inl e \<longrightarrow>
      checkEndpointSlicesExist k t = (Some e, t @ [ListEndpointSlices [] zero_ListOptions])) \<and>
   (capabilityPresent (ServerResourcesForGroupVersion k t (ServiceProfileAPIVersion c))
      (ServiceProfileAPIVersion c) (ServiceProfileKind c) \<longrightarrow>
    SelfSubjectAccessReviews_Create k (t @ [Discover (ServiceProfileAPIVersion c)])
      (selfQuery [] ''list'' ''linkerd.io'' [] ''serviceprofiles'' []) = Inl e \<longrightarrow>
      ServiceProfilesAccess k c t =
        (Some e, t @ [Discover (ServiceProfileAPIVersion c),
                      CreateSSAR (selfQuery [] ''list'' ''linkerd.io'' [] ''serviceprofiles'' [])])) \<and>
   (capabilityPresent (ServerResourcesForGroupVersion k t (LinkAPIGroupVersion c))
      (LinkAPIGroupVersion c) (LinkKind c) \<longrightarrow>
    SelfSubjectAccessReviews_Create k (t @ [Discover (LinkAPIGroupVersion c)])
      (selfQuery [] ''list'' (LinkAPIGroup c) (LinkAPIVersion c) ''links'' []) = Inl e \<longrightarrow>
      LinkAccess k c t =
        (Some e, t @ [Discover (LinkAPIGroupVersion c),
                      CreateSSAR (selfQuery [] ''list'' (LinkAPIGroup c) (LinkAPIVersion c)
                                    ''links'' [])])) \<and>
   (capabilityPresent (ServerResourcesForGroupVersion k t ''discovery.k8s.io/v1beta1'')
      ''discovery.k8s.io/v1beta1'' ''EndpointSlice'' \<longrightarrow>
    EndpointSlices_List k (t @ [Discover ''discovery.k8s.io/v1beta1'']) [] zero_ListOptions =
      Inl e \<longrightarrow>
      EndpointSliceAccess k t =
        (Some e, t @ [Discover ''discovery.k8s.io/v1beta1'',
                      ListEndpointSlices [] zero_ListOptions])) \<and>
   (SelfSubjectAccessReviews_Create k t (selfQuery [] ''list'' [] [] ''pods'' []) = Inl e \<longrightarrow>
      ClusterAccess k t = (Some e, t @ [CreateSSAR (selfQuery [] ''list'' [] [] ''pods'' [])]))"
proof -
  have gv: "GroupVersion_String SchemeGroupVersion = ''discovery.k8s.io/v1beta1''"
    by (simp add: GroupVersion_String_def SchemeGroupVersion_def)
  have discovery:
    "ServerResourcesForGroupVersion k t (ServiceProfileAPIVersion c) = Inl e \<longrightarrow>
       ServiceProfilesAccess k c t = (Some e, t @ [Discover (ServiceProfileAPIVersion c)])"
    "ServerResourcesForGroupVersion k t (LinkAPIGroupVersion c) = Inl e \<longrightarrow>
       LinkAccess k c t = (Some e, t @ [Discover (LinkAPIGroupVersion c)])"
    "ServerResourcesForGroupVersion k t ''discovery.k8s.io/v1beta1'' = Inl e \<longrightarrow>
       EndpointSliceAccess k t = (Some e, t @ [Discover ''discovery.k8s.io/v1beta1''])"
    by (simp_all add: ServiceProfilesAccess_eq LinkAccess_eq EndpointSliceAccess_eq gv)
  have single:
    "SelfSubjectAccessReviews_Create k t (selfQuery ns verb grp version resource name) = Inl e \<longrightarrow>
       ResourceAuthz k ns verb grp version resource name t =
         (Some e, t @ [CreateSSAR (selfQuery ns verb grp version resource name)])"
    "SubjectAccessReviews_Create k t
       (subjectQuery ns verb grp version resource subresource name user userGroups) = Inl e \<longrightarrow>
       ResourceAuthzForUser k ns verb grp version resource subresource name user userGroups t =
         (Some e, t @ [CreateSAR (subjectQuery ns verb grp version resource subresource name
                                    user userGroups)])"
    "EndpointSlices_List k t [] zero_ListOptions = Inl e \<longrightarrow>
       checkEndpointSlicesExist k t = (Some e, t @ [ListEndpointSlices [] zero_ListOptions])"
    "SelfSubjectAccessReviews_Create k t (selfQuery [] ''list'' [] [] ''pods'' []) = Inl e \<longrightarrow>
       ClusterAccess k t = (Some e, t @ [CreateSSAR (selfQuery [] ''list'' [] [] ''pods'' [])])"
    by (simp_all add: ResourceAuthz_eq ResourceAuthzForUser_eq checkEndpointSlicesExist_def
          ClusterAccess_def)
  have second:
    "capabilityPresent (ServerResourcesForGroupVersion k t (ServiceProfileAPIVersion c))
       (ServiceProfileAPIVersion c) (ServiceProfileKind c) \<longrightarrow>
     SelfSubjectAccessReviews_Create k (t @ [Discover (ServiceProfileAPIVersion c)])
       (selfQuery [] ''list'' ''linkerd.io'' [] ''serviceprofiles'' []) = Inl e \<longrightarrow>
       ServiceProfilesAccess k c t =
         (Some e, t @ [Discover (ServiceProfileAPIVersion c),
                       CreateSSAR (selfQuery [] ''list'' ''linkerd.io'' [] ''serviceprofiles'' [])])"
    "capabilityPresent (ServerResourcesForGroupVersion k t (LinkAPIGroupVersion c))
       (LinkAPIGroupVersion c) (LinkKind c) \<longrightarrow>
     SelfSubjectAccessReviews_Create k (t @ [Discover (LinkAPIGroupVersion c)])
       (selfQuery [] ''list'' (LinkAPIGroup c) (LinkAPIVersion c) ''links'' []) = Inl e \<longrightarrow>
       LinkAccess k c t =
         (Some e, t @ [Discover (LinkAPIGroupVersion c),
                       CreateSSAR (selfQuery [] ''list'' (LinkAPIGroup c) (LinkAPIVersion c)
                                     ''links'' [])])"
    "capabilityPresent (ServerResourcesForGroupVersion k t ''discovery.k8s.io/v1beta1'')
       ''discovery.k8s.io/v1beta1'' ''EndpointSlice'' \<longrightarrow>
     EndpointSlices_List k (t @ [Discover ''discovery.k8s.io/v1beta1'']) [] zero_ListOptions =
       Inl e \<longrightarrow>
       EndpointSliceAccess k t =
         (Some e, t @ [Discover ''discovery.k8s.io/v1beta1'',
                       ListEndpointSlices [] zero_ListOptions])"
    by (simp_all add: ServiceProfilesAccess_eq LinkAccess_eq EndpointSliceAccess_eq gv
          ResourceAuthz_eq checkEndpointSlicesExist_def capabilityPresent_def
          split: sum.split)
  from discovery single second show ?thesis
    by blast
qed

text \<open>C8 on a client whose discovery fails, and on one whose discovery serves the kinds
  while access reviews and the listing fail.\<close>

theorem transport_errors_returned_unchanged_witness:
  "ServerResourcesForGroupVersion (fakeClient unreachable (Inr allowedStatus) (Inr oneSlice)) []
     (ServiceProfileAPIVersion linkerdConstants) = Inl (otherError ''connection refused'') \<and>
   ServiceProfilesAccess (fakeClient unreachable (Inr allowedStatus) (Inr oneSlice))
     linkerdConstants [] =
     (Some (otherError ''connection refused''), [Discover ''linkerd.io/v1alpha2'']) \<and>
   ServerResourcesForGroupVersion (fakeClient unreachable (Inr allowedStatus) (Inr oneSlice)) []
     (LinkAPIGroupVersion linkerdConstants) = Inl (otherError ''connection refused'') \<and>
   LinkAccess (fakeClient unreachable (Inr allowedStatus) (Inr oneSlice))
     linkerdConstants [] =
     (Some (otherError ''connection refused''),
      [Discover ''multicluster.linkerd.io/v1alpha1'']) \<and>
   ServerResourcesForGroupVersion (fakeClient unreachable (Inr allowedStatus) (Inr oneSlice)) []
     ''discovery.k8s.io/v1beta1'' = Inl (otherError ''connection refused'') \<and>
   EndpointSliceAccess (fakeClient unreachable (Inr allowedStatus) (Inr oneSlice)) [] =
     (Some (otherError ''connection refused''), [Discover ''discovery.k8s.io/v1beta1'']) \<and>
   SelfSubjectAccessReviews_Create
     (fakeClient installed (Inl (otherError ''i/o timeout'')) (Inl (otherError ''EOF''))) []
     (selfQuery ''default'' ''get'' [] ''v1'' ''pods'' ''web-0'') =
     Inl (otherError ''i/o timeout'') \<and>
   ResourceAuthz
     (fakeClient installed (Inl (otherError ''i/o timeout'')) (Inl (otherError ''EOF'')))
     ''default'' ''get'' [] ''v1'' ''pods'' ''web-0'' [] =
     (Some (otherError ''i/o timeout''),
      [CreateSSAR (selfQuery ''default'' ''get'' [] ''v1'' ''pods'' ''web-0'')]) \<and>
   SubjectAccessReviews_Create
     (fakeClient installed (Inl (otherError ''i/o timeout'')) (Inl (otherError ''EOF''))) []
     (subjectQuery ''default'' ''get'' [] ''v1'' ''pods'' ''log'' ''web-0'' ''alice'' [''dev'']) =
     Inl (otherError ''i/o timeout'') \<and>
   ResourceAuthzForUser
     (fakeClient installed (Inl (otherError ''i/o timeout'')) (Inl (otherError ''EOF'')))
     ''default'' ''get'' [] ''v1'' ''pods'' ''log'' ''web-0'' ''alice'' [''dev''] [] =
     (Some (otherError ''i/o timeout''),
      [CreateSAR (subjectQuery ''default'' ''get'' [] ''v1'' ''pods'' ''log'' ''web-0''
                    ''alice'' [''dev''])]) \<and>
   EndpointSlices_List
     (fakeClient installed (Inl (otherError ''i/o timeout'')) (Inl (otherError ''EOF''))) []
     [] zero_ListOptions = Inl (otherError ''EOF'') \<and>
   checkEndpointSlicesExist
     (fakeClient installed (Inl (otherError ''i/o timeout'')) (Inl (otherError ''EOF''))) [] =
     (Some (otherError ''EOF''), [ListEndpointSlices [] zero_ListOptions]) \<and>
   capabilityPresent
     (ServerResourcesForGroupVersion
        (fakeClient installed (Inl (otherError ''i/o timeout'')) (Inl (otherError ''EOF''))) []
        (ServiceProfileAPIVersion linkerdConstants))
     (ServiceProfileAPIVersion linkerdConstants) (ServiceProfileKind linkerdConstants) \<and>
   ServiceProfilesAccess
     (fakeClient installed (Inl (otherError ''i/o timeout'')) (Inl (otherError ''EOF'')))
     linkerdConstants [] =
     (Some (otherError ''i/o timeout''),
      [Discover ''linkerd.io/v1alpha2'',
       CreateSSAR (selfQuery [] ''list'' ''linkerd.io'' [] ''serviceprofiles'' [])]) \<and>
   capabilityPresent
     (ServerResourcesForGroupVersion
        (fakeClient installed (Inl (otherError ''i/o timeout'')) (Inl (otherError ''EOF''))) []
        (LinkAPIGroupVersion linkerdConstants))
     (LinkAPIGroupVersion linkerdConstants) (LinkKind linkerdConstants) \<and>
   LinkAccess
     (fakeClient installed (Inl (otherError ''i/o timeout'')) (Inl (otherError ''EOF'')))
     linkerdConstants [] =
     (Some (otherError ''i/o timeout''),
      [Discover ''multicluster.linkerd.io/v1alpha1'',
       CreateSSAR (selfQuery [] ''list'' ''multicluster.linkerd.io'' ''v1alpha1''
                     ''links'' [])]) \<and>
   capabilityPresent
     (ServerResourcesForGroupVersion
        (fakeClient installed (Inl (otherError ''i/o timeout'')) (Inl (otherError ''EOF''))) []
        ''discovery.k8s.io/v1beta1'')
     ''discovery.k8s.io/v1beta1'' ''EndpointSlice'' \<and>
   EndpointSliceAccess
     (fakeClient installed (Inl (otherError ''i/o timeout'')) (Inl (otherError ''EOF''))) [] =
     (Some (otherError ''EOF''),
      [Discover ''discovery.k8s.io/v1beta1'', ListEndpointSlices [] zero_ListOptions]) \<and>
   ClusterAccess
     (fakeClient installed (Inl (otherError ''i/o timeout'')) (Inl (otherError ''EOF''))) [] =
     (Some (otherError ''i/o timeout''),
      [CreateSSAR (selfQuery [] ''list'' [] [] ''pods'' [])])"
  using transport_errors_returned_unchanged
      [where k = "fakeClient unreachable (Inr allowedStatus) (Inr oneSlice)" and t = "[]"
         and c = linkerdConstants and e = "otherError ''connection refused''"]
    transport_errors_returned_unchanged
      [where k = "fakeClient installed (Inl (otherError ''i/o timeout''))
                    (Inl (otherError ''EOF''))"
         and t = "[]" and c = linkerdConstants and e = "otherError ''i/o timeout''"
         and ns = "''default''" and verb = "''get''" and grp = "[]"
         and version = "''v1''" and resource = "''pods''" and subresource = "''log''"
         and name = "''web-0''" and user = "''alice''" and userGroups = "[''dev'']"]
    transport_errors_returned_unchanged
      [where k = "fakeClient installed (Inl (otherError ''i/o timeout''))
                    (Inl (otherError ''EOF''))"
         and t = "[]" and c = linkerdConstants and e = "otherError ''EOF''"]
  by (simp add: double_defs capabilityPresent_def)

section \<open>Subresources\<close>

text \<open>C10. Every call that one of the four public checks makes is not a subject access
  review, and if it is an access review its resource attributes have the empty
  \<open>Subresource\<close>. \<open>ResourceAuthz\<close> has no subresource parameter: for all its arguments its one
  call is a self-subject review with the empty \<open>Subresource\<close>. \<open>ResourceAuthzForUser\<close> is the
  one builder that takes a subresource, and its one call carries it.\<close>

theorem self_queries_carry_no_subresource:
  "(\<forall>x \<in> set (callsMade t (ServiceProfilesAccess k c t)) \<union>
          set (callsMade t (LinkAccess k c t)) \<union>
          set (callsMade t (EndpointSliceAccess k t)) \<union>
          set (callsMade t (ClusterAccess k t)).
      (isAccessReview x \<longrightarrow> subresourceOf x = Some []) \<and> (\<forall>q. x \<noteq> CreateSAR q)) \<and>
   callsMade t (ResourceAuthz k ns verb grp version resource name t) =
     [CreateSSAR (selfQuery ns verb grp version resource name)] \<and>
   subresourceOf (CreateSSAR (selfQuery ns verb grp version resource name)) = Some [] \<and>
   callsMade t (ResourceAuthzForUser k ns verb grp version resource subresource name
                  user userGroups t) =
     [CreateSAR (subjectQuery ns verb grp version resource subresource name user userGroups)] \<and>
   subresourceOf
     (CreateSAR (subjectQuery ns verb grp version resource subresource name user userGroups)) =
     Some subresource"
proof -
  have sub: "subresourceOf (CreateSSAR (selfQuery a b d e f g)) = Some []" for a b d e f g
    by (simp add: selfQuery_def)
  have calls:
    "set (callsMade t (ServiceProfilesAccess k c t)) \<subseteq>
       {Discover (ServiceProfileAPIVersion c),
        CreateSSAR (selfQuery [] ''list'' ''linkerd.io'' [] ''serviceprofiles'' [])}"
    "set (callsMade t (LinkAccess k c t)) \<subseteq>
       {Discover (LinkAPIGroupVersion c),
        CreateSSAR (selfQuery [] ''list'' (LinkAPIGroup c) (LinkAPIVersion c) ''links'' [])}"
    "set (callsMade t (EndpointSliceAccess k t)) \<subseteq>
       {Discover (GroupVersion_String SchemeGroupVersion),
        ListEndpointSlices [] zero_ListOptions}"
    "set (callsMade t (ClusterAccess k t)) \<subseteq>
       {CreateSSAR (selfQuery [] ''list'' [] [] ''pods'' [])}"
    by (simp_all add: callsMade_def ServiceProfilesAccess_eq LinkAccess_eq
          EndpointSliceAccess_eq ClusterAccess_def ResourceAuthz_eq checkEndpointSlicesExist_def
          split: sum.split)
  have first:
    "\<forall>x \<in> set (callsMade t (ServiceProfilesAccess k c t)) \<union>
          set (callsMade t (LinkAccess k c t)) \<union>
          set (callsMade t (EndpointSliceAccess k t)) \<union>
          set (callsMade t (ClusterAccess k t)).
      (isAccessReview x \<longrightarrow> subresourceOf x = Some []) \<and> (\<forall>q. x \<noteq> CreateSAR q)"
    using calls sub by auto
  have rest:
    "callsMade t (ResourceAuthz k ns verb grp version resource name t) =
       [CreateSSAR (selfQuery ns verb grp version resource name)]"
    "callsMade t (ResourceAuthzForUser k ns verb grp version resource subresource name
                    user userGroups t) =
       [CreateSAR (subjectQuery ns verb grp version resource subresource name user userGroups)]"
    "subresourceOf
       (CreateSAR (subjectQuery ns verb grp version resource subresource name user userGroups)) =
       Some subresource"
    by (simp_all add: callsMade_def ResourceAuthz_eq ResourceAuthzForUser_eq subjectQuery_def)
  from first rest sub show ?thesis
    by simp
qed

text \<open>C10 at the access review of the profile check, and at a subject review for the
  \<open>log\<close> subresource.\<close>

theorem self_queries_carry_no_subresource_witness:
  "CreateSSAR (selfQuery [] ''list'' ''linkerd.io'' [] ''serviceprofiles'' []) \<in>
     set (callsMade [] (ServiceProfilesAccess
            (fakeClient installed (Inr allowedStatus) (Inr oneSlice)) linkerdConstants [])) \<union>
     set (callsMade [] (LinkAccess
            (fakeClient installed (Inr allowedStatus) (Inr oneSlice)) linkerdConstants [])) \<union>
     set (callsMade [] (EndpointSliceAccess
            (fakeClient installed (Inr allowedStatus) (Inr oneSlice)) [])) \<union>
     set (callsMade [] (ClusterAccess
            (fakeClient installed (Inr allowedStatus) (Inr oneSlice)) [])) \<and>
   isAccessReview (CreateSSAR (selfQuery [] ''list'' ''linkerd.io'' [] ''serviceprofiles'' [])) \<and>
   subresourceOf (CreateSSAR (selfQuery [] ''list'' ''linkerd.io'' [] ''serviceprofiles'' [])) =
     Some [] \<and>
   subresourceOf
     (CreateSAR (subjectQuery ''default'' ''get'' [] ''v1'' ''pods'' ''log'' ''web-0''
                   ''alice'' [''dev''])) = Some ''log''"
  using self_queries_carry_no_subresource
    [where k = "fakeClient installed (Inr allowedStatus) (Inr oneSlice)" and t = "[]"
       and c = linkerdConstants and ns = "''default''" and verb = "''get''" and grp = "[]"
       and version = "''v1''" and resource = "''pods''" and subresource = "''log''"
       and name = "''web-0''" and user = "''alice''" and userGroups = "[''dev'']"]
  by (simp add: double_defs callsMade_def ServiceProfilesAccess_eq ResourceAuthz_eq)

end
